theory Spec2Isabelle
  imports Main
begin

section \<open>The schema of \<open>app/models.py\<close>\<close>

text \<open>
  \<open>app/models.py\<close> declares the enumerations, the table classes and the request shapes
  of the student-transfer system with SQLModel. It holds no function of its own, and no
  engine, session or store. What the file decides is
  \<^item> which requests a request shape (a \<open>table=False\<close> class) accepts: building one
    validates every field against what its \<open>Field\<close> declares;
  \<^item> whether a table class can be constructed: at the first construction SQLAlchemy
    configures the mappers of all table classes, from the relationships and the foreign
    keys they declare;
  \<^item> which table a table class declares: one column for each field, with the NOT NULL,
    UNIQUE, PRIMARY KEY, FOREIGN KEY and length that the field declares.

  An enumeration is a datatype and a class a record (a field annotated \<open>Optional[...]\<close>
  is an \<open>option\<close>). A Python \<open>str\<close> is a \<open>string\<close>, one \<open>char\<close> for each character, so
  that \<open>length\<close> is Python's \<open>len\<close>. A \<open>datetime\<close> is a point on an integer time line.
\<close>

type_synonym datetime = int

subsection \<open>Enumerations\<close>

datatype UserRole = SCHOOL_ADMIN | TEACHER | DISTRICT_OPERATOR | HEADMASTER

datatype TransferStatus =
  DRAFT | SUBMITTED | DOCUMENT_VERIFICATION | PENDING_APPROVAL | APPROVED | REJECTED | COMPLETED

datatype TransferType = INCOMING | OUTGOING

datatype DocumentType = BIRTH_CERTIFICATE | REPORT_CARD | FAMILY_CARD | TRANSFER_LETTER | OTHER

text \<open>The members of a \<open>str\<close> enumeration in declaration order, and the string of each.\<close>

definition UserRole_members :: "UserRole list" where
  "UserRole_members = [SCHOOL_ADMIN, TEACHER, DISTRICT_OPERATOR, HEADMASTER]"

fun UserRole_value :: "UserRole \<Rightarrow> string" where
  "UserRole_value SCHOOL_ADMIN = ''school_admin''"
| "UserRole_value TEACHER = ''teacher''"
| "UserRole_value DISTRICT_OPERATOR = ''district_operator''"
| "UserRole_value HEADMASTER = ''headmaster''"



definition TransferStatus_members :: "TransferStatus list" where
  "TransferStatus_members =
     [DRAFT, SUBMITTED, DOCUMENT_VERIFICATION, PENDING_APPROVAL, APPROVED, REJECTED, COMPLETED]"

fun TransferStatus_value :: "TransferStatus \<Rightarrow> string" where
  "TransferStatus_value DRAFT = ''draft''"
| "TransferStatus_value SUBMITTED = ''submitted''"
| "TransferStatus_value DOCUMENT_VERIFICATION = ''document_verification''"
| "TransferStatus_value PENDING_APPROVAL = ''pending_approval''"
| "TransferStatus_value APPROVED = ''approved''"
| "TransferStatus_value REJECTED = ''rejected''"
| "TransferStatus_value COMPLETED = ''completed''"

text \<open>Looking a member up by its value, as \<open>UserRole("teacher")\<close> does; \<open>None\<close> where
  Python raises \<open>ValueError\<close>.\<close>

definition UserRole_of_value :: "string \<Rightarrow> UserRole option" where
  "UserRole_of_value v = find (\<lambda>m. UserRole_value m = v) UserRole_members"

definition TransferStatus_of_value :: "string \<Rightarrow> TransferStatus option" where
  "TransferStatus_of_value v = find (\<lambda>m. TransferStatus_value m = v) TransferStatus_members"


subsection \<open>Errors\<close>

text \<open>
  \<open>ValidationError\<close> is what building a request shape raises, with the fields refused
  in declaration order. \<open>InvalidRequestError\<close> is how SQLAlchemy reports a mapper
  configuration that has failed (the very first use of a table class in a process reports
  the cause itself, an \<open>AmbiguousForeignKeysError\<close>). The other kinds are those of the
  specification's section 7; nothing in \<open>models.py\<close> raises them.
\<close>

datatype error =
  ValidationError "string list"
  | InvalidRequestError
  | UniquenessConflict string
  | NotFound string
  | InvalidTransition
  | AuthorizationDenied
  | ConsistencyViolation

subsection \<open>Field constraints\<close>

text \<open>A required \<open>str\<close> field with \<open>min_length\<close> and \<open>max_length\<close> (both inclusive), and
  an \<open>Optional[str]\<close> field with \<open>max_length\<close>: the field's name when the value is refused.\<close>

definition str_errors :: "string \<Rightarrow> nat \<Rightarrow> nat \<Rightarrow> string option \<Rightarrow> string list" where
  "str_errors field min_length max_length v =
     (case v of
        None \<Rightarrow> [field]
      | Some s \<Rightarrow> if length s < min_length \<or> max_length < length s then [field] else [])"

definition opt_str_errors :: "string \<Rightarrow> nat \<Rightarrow> string option \<Rightarrow> string list" where
  "opt_str_errors field max_length v =
     (case v of
        None \<Rightarrow> []
      | Some s \<Rightarrow> if max_length < length s then [field] else [])"

text \<open>
  The pattern of \<open>User.email\<close>,
  \<^verbatim>\<open>^[a-zA-Z0-9_.+-]+@[a-zA-Z0-9-]+\.[a-zA-Z0-9-.]+$\<close>,
  matched against the whole string. No class contains \<open>@\<close>, so the local part is what
  stands before the first \<open>@\<close>; the second class does not contain the dot, so the label
  after \<open>@\<close> is the longest run of its characters and a dot must follow it.
\<close>

definition alnum :: string where
  "alnum = ''abcdefghijklmnopqrstuvwxyzABCDEFGHIJKLMNOPQRSTUVWXYZ0123456789''"

definition local_char :: "char \<Rightarrow> bool" where
  "local_char c \<longleftrightarrow> c \<in> set (alnum @ ''_.+-'')"

definition label_char :: "char \<Rightarrow> bool" where
  "label_char c \<longleftrightarrow> c \<in> set (alnum @ ''-'')"

definition tail_char :: "char \<Rightarrow> bool" where
  "tail_char c \<longleftrightarrow> c \<in> set (alnum @ ''-.'')"

definition email_regex :: "string \<Rightarrow> bool" where
  "email_regex s =
     (let local_part = takeWhile (\<lambda>c. c \<noteq> CHR ''@'') s;
          rest = dropWhile (\<lambda>c. c \<noteq> CHR ''@'') s
      in local_part \<noteq> [] \<and> list_all local_char local_part \<and>
         (case rest of
            [] \<Rightarrow> False
          | _ # domain \<Rightarrow>
              (let label = takeWhile label_char domain;
                   after = dropWhile label_char domain
               in label \<noteq> [] \<and>
                  (case after of
                     [] \<Rightarrow> False
                   | c # t \<Rightarrow> c = CHR ''.'' \<and> t \<noteq> [] \<and> list_all tail_char t))))"

text \<open>
  The key of a payload for a field that has a default and is not \<open>Optional\<close>: it is
  missing (the default is taken), null (refused) or given. A required \<open>int\<close> field is
  refused when its key is missing or null.
\<close>

datatype 'a given = Missing | Null | Given 'a




subsection \<open>The request shape \<open>UserCreate\<close>\<close>

text \<open>
  \<open>UserCreate\<close> is a \<open>table=False\<close> class: building one from a request validates every
  field and raises one \<open>ValidationError\<close> that lists all the fields refused. The request
  is a payload in which a key that is missing (or null) is \<open>None\<close>. \<open>role\<close> arrives as
  the member's string; it has the default \<open>TEACHER\<close> and is not \<open>Optional\<close>, so a
  missing \<open>role\<close> gives the default and a null \<open>role\<close> is refused.
\<close>

record UserCreate_payload =
  p_username :: "string option"
  p_email :: "string option"
  p_password :: "string option"
  p_full_name :: "string option"
  p_role :: "string given"
  p_phone :: "string option"

record UserCreate =
  uc_username :: string
  uc_email :: string
  uc_password :: string
  uc_full_name :: string
  uc_role :: UserRole
  uc_phone :: "string option"

definition role_of_payload :: "string given \<Rightarrow> UserRole option" where
  "role_of_payload v =
     (case v of Missing \<Rightarrow> Some TEACHER | Null \<Rightarrow> None | Given s \<Rightarrow> UserRole_of_value s)"

definition UserCreate_errors :: "UserCreate_payload \<Rightarrow> string list" where
  "UserCreate_errors p =
     str_errors ''username'' 0 50 (p_username p) @
     str_errors ''email'' 0 255 (p_email p) @
     str_errors ''password'' 8 100 (p_password p) @
     str_errors ''full_name'' 0 100 (p_full_name p) @
     (if role_of_payload (p_role p) = None then [''role''] else []) @
     opt_str_errors ''phone'' 20 (p_phone p)"

definition validate_UserCreate :: "UserCreate_payload \<Rightarrow> error + UserCreate" where
  "validate_UserCreate p =
     (if UserCreate_errors p \<noteq> [] then Inl (ValidationError (UserCreate_errors p))
      else Inr \<lparr>uc_username = the (p_username p),
                uc_email = the (p_email p),
                uc_password = the (p_password p),
                uc_full_name = the (p_full_name p),
                uc_role = the (role_of_payload (p_role p)),
                uc_phone = p_phone p\<rparr>)"

subsection \<open>The request shape \<open>TransferCreate\<close>\<close>






subsection \<open>The table classes\<close>

text \<open>A stored row of each table that is used below, with a value in every column that
  is not \<open>Optional\<close>.\<close>

record User =
  u_id :: "int option"
  u_username :: string
  u_email :: string
  u_password_hash :: string
  u_full_name :: string
  u_role :: UserRole
  u_is_active :: bool
  u_phone :: "string option"
  u_created_at :: datetime
  u_updated_at :: datetime
  u_last_login :: "datetime option"

text \<open>The fields of a \<open>User\<close> whose value breaks a constraint that the class declares for
  the field (\<open>max_length\<close>, \<open>regex\<close>). This is what the declarations say of a value;
  constructing a \<open>User\<close> checks none of it.\<close>

definition User_errors :: "User \<Rightarrow> string list" where
  "User_errors u =
     str_errors ''username'' 0 50 (Some (u_username u)) @
     (if 255 < length (u_email u) \<or> \<not> email_regex (u_email u) then [''email''] else []) @
     str_errors ''password_hash'' 0 255 (Some (u_password_hash u)) @
     str_errors ''full_name'' 0 100 (Some (u_full_name u)) @
     opt_str_errors ''phone'' 20 (u_phone u)"

record School =
  sc_id :: "int option"
  sc_npsn :: string
  sc_name :: string
  sc_address :: string
  sc_district :: string
  sc_regency :: string
  sc_province :: string
  sc_postal_code :: "string option"
  sc_phone :: "string option"
  sc_email :: "string option"
  sc_headmaster_name :: string
  sc_is_active :: bool
  sc_created_at :: datetime

record Student =
  st_id :: "int option"
  st_nisn :: string
  st_nis :: "string option"
  st_full_name :: string
  st_birth_place :: string
  st_birth_date :: datetime
  st_gender :: string
  st_religion :: string
  st_address :: string
  st_parent_name :: string
  st_parent_phone :: "string option"
  st_current_grade :: string
  st_created_at :: datetime
  st_updated_at :: datetime

record StudentTransfer =
  tr_id :: "int option"
  tr_transfer_number :: string
  tr_student_id :: int
  tr_transfer_type :: TransferType
  tr_origin_school_id :: int
  tr_destination_school_id :: int
  tr_transfer_reason :: string
  tr_status :: TransferStatus
  tr_grade_from :: string
  tr_grade_to :: string
  tr_semester :: string
  tr_academic_year :: string
  tr_transfer_date :: datetime
  tr_created_by_id :: int
  tr_approved_by_id :: "int option"
  tr_approval_date :: "datetime option"
  tr_approval_notes :: "string option"
  tr_priority_level :: string
  tr_notes :: "string option"
  tr_created_at :: datetime
  tr_updated_at :: datetime

record TransferDocument =
  doc_id :: "int option"
  doc_transfer_id :: int
  doc_document_type :: DocumentType
  doc_file_name :: string
  doc_file_path :: string
  doc_file_size :: int
  doc_mime_type :: string
  doc_is_verified :: bool
  doc_verified_by_id :: "int option"
  doc_verified_at :: "datetime option"
  doc_verification_notes :: "string option"
  doc_uploaded_at :: datetime

record TransferStatusHistory =
  h_id :: "int option"
  h_transfer_id :: int
  h_previous_status :: "TransferStatus option"
  h_new_status :: TransferStatus
  h_changed_by_id :: int
  h_change_reason :: "string option"
  h_notes :: "string option"
  h_created_at :: datetime

record SystemSettings =
  set_id :: "int option"
  set_setting_key :: string
  set_setting_value :: string
  set_description :: "string option"
  set_is_active :: bool
  set_created_at :: datetime
  set_updated_at :: datetime

record TransferStatistics =
  stat_id :: "int option"
  stat_year :: int
  stat_month :: int
  stat_total_incoming :: int
  stat_total_outgoing :: int
  stat_total_approved :: int
  stat_total_rejected :: int
  stat_total_pending :: int
  stat_created_at :: datetime
  stat_updated_at :: datetime

text \<open>The rows stored, table by table, oldest first.\<close>

record database =
  users :: "User list"
  schools :: "School list"
  students :: "Student list"
  student_transfers :: "StudentTransfer list"
  transfer_status_history :: "TransferStatusHistory list"
  system_settings :: "SystemSettings list"
  transfer_statistics :: "TransferStatistics list"

subsection \<open>Constructing a table class\<close>

text \<open>
  The foreign keys that the fields of the table classes declare (table, column, table
  referred to), and the relationships (table of the class, attribute, table of the class
  the attribute is annotated with). No relationship is given \<open>foreign_keys\<close> or a join
  condition, so SQLAlchemy takes the join of a relationship from the foreign keys between
  its two tables, in either direction, and can do so only when there is exactly one.
\<close>

definition foreign_keys :: "(string \<times> string \<times> string) list" where
  "foreign_keys =
     [(''student_transfers'', ''student_id'', ''students''),
      (''student_transfers'', ''origin_school_id'', ''schools''),
      (''student_transfers'', ''destination_school_id'', ''schools''),
      (''student_transfers'', ''created_by_id'', ''users''),
      (''student_transfers'', ''approved_by_id'', ''users''),
      (''transfer_documents'', ''transfer_id'', ''student_transfers''),
      (''transfer_documents'', ''verified_by_id'', ''users''),
      (''transfer_status_history'', ''transfer_id'', ''student_transfers''),
      (''transfer_status_history'', ''changed_by_id'', ''users''),
      (''notifications'', ''user_id'', ''users''),
      (''notifications'', ''transfer_id'', ''student_transfers''),
      (''audit_logs'', ''user_id'', ''users'')]"

definition relationships :: "(string \<times> string \<times> string) list" where
  "relationships =
     [(''users'', ''created_transfers'', ''student_transfers''),
      (''users'', ''approved_transfers'', ''student_transfers''),
      (''users'', ''notifications'', ''notifications''),
      (''schools'', ''origin_transfers'', ''student_transfers''),
      (''schools'', ''destination_transfers'', ''student_transfers''),
      (''students'', ''transfers'', ''student_transfers''),
      (''student_transfers'', ''student'', ''students''),
      (''student_transfers'', ''origin_school'', ''schools''),
      (''student_transfers'', ''destination_school'', ''schools''),
      (''student_transfers'', ''created_by_user'', ''users''),
      (''student_transfers'', ''approved_by_user'', ''users''),
      (''student_transfers'', ''documents'', ''transfer_documents''),
      (''student_transfers'', ''status_history'', ''transfer_status_history''),
      (''student_transfers'', ''notifications'', ''notifications''),
      (''transfer_documents'', ''transfer'', ''student_transfers''),
      (''transfer_status_history'', ''transfer'', ''student_transfers''),
      (''notifications'', ''user'', ''users''),
      (''notifications'', ''transfer'', ''student_transfers'')]"

definition foreign_key_paths :: "string \<Rightarrow> string \<Rightarrow> (string \<times> string \<times> string) list" where
  "foreign_key_paths a b =
     filter (\<lambda>(t, c, r). (t = a \<and> r = b) \<or> (t = b \<and> r = a)) foreign_keys"

definition unresolved_relationships :: "(string \<times> string \<times> string) list" where
  "unresolved_relationships =
     filter (\<lambda>(a, n, b). length (foreign_key_paths a b) \<noteq> 1) relationships"

text \<open>
  The constructor of a table class. It first has the mappers configured, which fails
  when a relationship is unresolved. Otherwise it validates nothing: each field takes the
  keyword argument of its name as it is, or, when there is none, its default; a field
  with neither stays unset. A field with \<open>default_factory=datetime.utcnow\<close> reads the
  clock, and \<open>now k\<close> is the reading after \<open>k\<close> earlier ones.
\<close>

datatype pyvalue =
  PyNone
  | PyInt int
  | PyStr string
  | PyBool bool
  | PyDatetime datetime
  | PyTransferStatus TransferStatus
  | PyTransferType TransferType

datatype field_default = NoDefault | Default pyvalue | UtcNow

definition StudentTransfer_fields :: "(string \<times> field_default) list" where
  "StudentTransfer_fields =
     [(''id'', Default PyNone),
      (''transfer_number'', NoDefault),
      (''student_id'', NoDefault),
      (''transfer_type'', NoDefault),
      (''origin_school_id'', NoDefault),
      (''destination_school_id'', NoDefault),
      (''transfer_reason'', NoDefault),
      (''status'', Default (PyTransferStatus DRAFT)),
      (''grade_from'', NoDefault),
      (''grade_to'', NoDefault),
      (''semester'', NoDefault),
      (''academic_year'', NoDefault),
      (''transfer_date'', UtcNow),
      (''created_by_id'', NoDefault),
      (''approved_by_id'', Default PyNone),
      (''approval_date'', Default PyNone),
      (''approval_notes'', Default PyNone),
      (''priority_level'', Default (PyStr ''normal'')),
      (''notes'', Default PyNone),
      (''created_at'', UtcNow),
      (''updated_at'', UtcNow)]"

fun fill_fields ::
  "(nat \<Rightarrow> datetime) \<Rightarrow> (string \<rightharpoonup> pyvalue) \<Rightarrow> (string \<times> field_default) list \<Rightarrow> nat \<Rightarrow>
     (string \<times> pyvalue) list" where
  "fill_fields now kwargs [] k = []"
| "fill_fields now kwargs ((name, d) # rest) k =
     (case kwargs name of
        Some v \<Rightarrow> (name, v) # fill_fields now kwargs rest k
      | None \<Rightarrow>
          (case d of
             NoDefault \<Rightarrow> fill_fields now kwargs rest k
           | Default v \<Rightarrow> (name, v) # fill_fields now kwargs rest k
           | UtcNow \<Rightarrow> (name, PyDatetime (now k)) # fill_fields now kwargs rest (Suc k)))"

definition StudentTransfer_init ::
  "(nat \<Rightarrow> datetime) \<Rightarrow> (string \<rightharpoonup> pyvalue) \<Rightarrow> error + (string \<times> pyvalue) list" where
  "StudentTransfer_init now kwargs =
     (if unresolved_relationships \<noteq> [] then Inl InvalidRequestError
      else Inr (fill_fields now kwargs StudentTransfer_fields 0))"

subsection \<open>The tables that the classes declare\<close>

text \<open>
  SQLModel builds the table of a table class when the class is created, one column for
  each field: the column is NOT NULL unless the field is \<open>Optional\<close> (the primary key
  apart), and it is UNIQUE, the PRIMARY KEY, a FOREIGN KEY and of the length
  \<open>max_length\<close> as its \<open>Field\<close> says. For the values of a row as they reach the table
  (\<open>None\<close> is NULL), the functions below list the declared constraints that the values
  violate, against the rows stored. Which of them a store enforces, in which order and
  with which error is the store's matter and is not modelled.
\<close>

datatype declared_constraint =
  NotNull string
  | MaxLength string nat
  | PrimaryKey string
  | Unique string
  | ForeignKey string string

definition null_violation :: "string \<Rightarrow> 'a option \<Rightarrow> declared_constraint list" where
  "null_violation column v = (case v of None \<Rightarrow> [NotNull column] | Some _ \<Rightarrow> [])"

definition length_violation :: "string \<Rightarrow> nat \<Rightarrow> string option \<Rightarrow> declared_constraint list" where
  "length_violation column n v =
     (case v of
        None \<Rightarrow> []
      | Some s \<Rightarrow> if n < length s then [MaxLength column n] else [])"

definition key_violation :: "int option \<Rightarrow> int option list \<Rightarrow> declared_constraint list" where
  "key_violation v stored =
     (case v of
        None \<Rightarrow> []
      | Some i \<Rightarrow> if Some i \<in> set stored then [PrimaryKey ''id''] else [])"

definition unique_violation :: "string \<Rightarrow> 'a option \<Rightarrow> 'a list \<Rightarrow> declared_constraint list" where
  "unique_violation column v stored =
     (case v of
        None \<Rightarrow> []
      | Some x \<Rightarrow> if x \<in> set stored then [Unique column] else [])"

definition reference_violation ::
  "string \<Rightarrow> string \<Rightarrow> int option \<Rightarrow> int option list \<Rightarrow> declared_constraint list" where
  "reference_violation column target v stored =
     (case v of
        None \<Rightarrow> []
      | Some i \<Rightarrow> if Some i \<in> set stored then [] else [ForeignKey column target])"

record StudentTransfer_values =
  v_id :: "int option"
  v_transfer_number :: "string option"
  v_student_id :: "int option"
  v_transfer_type :: "TransferType option"
  v_origin_school_id :: "int option"
  v_destination_school_id :: "int option"
  v_transfer_reason :: "string option"
  v_status :: "TransferStatus option"
  v_grade_from :: "string option"
  v_grade_to :: "string option"
  v_semester :: "string option"
  v_academic_year :: "string option"
  v_transfer_date :: "datetime option"
  v_created_by_id :: "int option"
  v_approved_by_id :: "int option"
  v_approval_date :: "datetime option"
  v_approval_notes :: "string option"
  v_priority_level :: "string option"
  v_notes :: "string option"
  v_created_at :: "datetime option"
  v_updated_at :: "datetime option"

definition StudentTransfer_violations ::
  "database \<Rightarrow> StudentTransfer_values \<Rightarrow> declared_constraint list" where
  "StudentTransfer_violations db v =
     key_violation (v_id v) (map tr_id (student_transfers db)) @
     null_violation ''transfer_number'' (v_transfer_number v) @
     length_violation ''transfer_number'' 50 (v_transfer_number v) @
     unique_violation ''transfer_number'' (v_transfer_number v)
       (map tr_transfer_number (student_transfers db)) @
     null_violation ''student_id'' (v_student_id v) @
     reference_violation ''student_id'' ''students.id'' (v_student_id v)
       (map st_id (students db)) @
     null_violation ''transfer_type'' (v_transfer_type v) @
     null_violation ''origin_school_id'' (v_origin_school_id v) @
     reference_violation ''origin_school_id'' ''schools.id'' (v_origin_school_id v)
       (map sc_id (schools db)) @
     null_violation ''destination_school_id'' (v_destination_school_id v) @
     reference_violation ''destination_school_id'' ''schools.id'' (v_destination_school_id v)
       (map sc_id (schools db)) @
     null_violation ''transfer_reason'' (v_transfer_reason v) @
     length_violation ''transfer_reason'' 1000 (v_transfer_reason v) @
     null_violation ''status'' (v_status v) @
     null_violation ''grade_from'' (v_grade_from v) @
     length_violation ''grade_from'' 10 (v_grade_from v) @
     null_violation ''grade_to'' (v_grade_to v) @
     length_violation ''grade_to'' 10 (v_grade_to v) @
     null_violation ''semester'' (v_semester v) @
     length_violation ''semester'' 10 (v_semester v) @
     null_violation ''academic_year'' (v_academic_year v) @
     length_violation ''academic_year'' 10 (v_academic_year v) @
     null_violation ''transfer_date'' (v_transfer_date v) @
     null_violation ''created_by_id'' (v_created_by_id v) @
     reference_violation ''created_by_id'' ''users.id'' (v_created_by_id v)
       (map u_id (users db)) @
     reference_violation ''approved_by_id'' ''users.id'' (v_approved_by_id v)
       (map u_id (users db)) @
     length_violation ''approval_notes'' 1000 (v_approval_notes v) @
     null_violation ''priority_level'' (v_priority_level v) @
     length_violation ''priority_level'' 20 (v_priority_level v) @
     length_violation ''notes'' 2000 (v_notes v) @
     null_violation ''created_at'' (v_created_at v) @
     null_violation ''updated_at'' (v_updated_at v)"

record TransferStatusHistory_values =
  hv_id :: "int option"
  hv_transfer_id :: "int option"
  hv_previous_status :: "TransferStatus option"
  hv_new_status :: "TransferStatus option"
  hv_changed_by_id :: "int option"
  hv_change_reason :: "string option"
  hv_notes :: "string option"
  hv_created_at :: "datetime option"

definition TransferStatusHistory_violations ::
  "database \<Rightarrow> TransferStatusHistory_values \<Rightarrow> declared_constraint list" where
  "TransferStatusHistory_violations db v =
     key_violation (hv_id v) (map h_id (transfer_status_history db)) @
     null_violation ''transfer_id'' (hv_transfer_id v) @
     reference_violation ''transfer_id'' ''student_transfers.id'' (hv_transfer_id v)
       (map tr_id (student_transfers db)) @
     null_violation ''new_status'' (hv_new_status v) @
     null_violation ''changed_by_id'' (hv_changed_by_id v) @
     reference_violation ''changed_by_id'' ''users.id'' (hv_changed_by_id v)
       (map u_id (users db)) @
     length_violation ''change_reason'' 500 (hv_change_reason v) @
     length_violation ''notes'' 1000 (hv_notes v) @
     null_violation ''created_at'' (hv_created_at v)"

text \<open>The \<open>new_status\<close> values of the history rows of one transfer, oldest first.\<close>

definition status_history :: "int \<Rightarrow> database \<Rightarrow> TransferStatus list" where
  "status_history tid db =
     map h_new_status (filter (\<lambda>h. h_transfer_id h = tid) (transfer_status_history db))"

section \<open>What the specification asks of the lifecycle\<close>

text \<open>
  The transition graph of the specification's section 4.1,
  \<open>draft \<rightarrow> submitted \<rightarrow> document_verification \<rightarrow> pending_approval \<rightarrow>
  {approved | rejected}\<close> and \<open>approved \<rightarrow> completed\<close>, written from the specification's
  words: \<open>models.py\<close> has no counterpart of it. A history is a walk from \<open>draft\<close>; the
  entry of the creation itself, with \<open>new_status = draft\<close>, may stand first.
\<close>

fun spec_transition :: "TransferStatus \<Rightarrow> TransferStatus \<Rightarrow> bool" where
  "spec_transition DRAFT SUBMITTED = True"
| "spec_transition SUBMITTED DOCUMENT_VERIFICATION = True"
| "spec_transition DOCUMENT_VERIFICATION PENDING_APPROVAL = True"
| "spec_transition PENDING_APPROVAL APPROVED = True"
| "spec_transition PENDING_APPROVAL REJECTED = True"
| "spec_transition APPROVED COMPLETED = True"
| "spec_transition _ _ = False"

fun spec_walk :: "TransferStatus \<Rightarrow> TransferStatus list \<Rightarrow> bool" where
  "spec_walk s [] = True"
| "spec_walk s (n # ns) = (spec_transition s n \<and> spec_walk n ns)"

definition spec_history_ok :: "TransferStatus list \<Rightarrow> bool" where
  "spec_history_ok ss =
     (case ss of DRAFT # rest \<Rightarrow> spec_walk DRAFT rest | _ \<Rightarrow> spec_walk DRAFT ss)"

text \<open>The specification's rule for the approval fields of a transfer (section 3 and the
  first testable property), written from its words, for a status, an \<open>approved_by_id\<close>
  and an \<open>approval_date\<close>.\<close>

definition spec_approval_fields_ok ::
  "TransferStatus \<Rightarrow> int option \<Rightarrow> datetime option \<Rightarrow> bool" where
  "spec_approval_fields_ok status approved_by_id approval_date \<longleftrightarrow>
     ((approved_by_id \<noteq> None \<and> approval_date \<noteq> None) \<longleftrightarrow>
        status \<in> {APPROVED, REJECTED, COMPLETED}) \<and>
     (status \<in> {DRAFT, SUBMITTED, DOCUMENT_VERIFICATION, PENDING_APPROVAL} \<longrightarrow>
        approved_by_id = None \<and> approval_date = None)"

text \<open>
  Modelled from the spec: \<open>models.py\<close> declares the verification fields of
  \<open>TransferDocument\<close> and has no function that verifies a document. The specification
  (sections 3 and 4.2) says that verifying marks the document verified and records the
  verifier, the time and the notes, and that a document is otherwise never changed.
\<close>

definition verify_document ::
  "int \<Rightarrow> datetime \<Rightarrow> string option \<Rightarrow> TransferDocument \<Rightarrow> TransferDocument" where
  "verify_document verifier now notes d =
     d\<lparr>doc_is_verified := True,
       doc_verified_by_id := Some verifier,
       doc_verified_at := Some now,
       doc_verification_notes := notes\<rparr>"

text \<open>
  Modelled from the spec: \<open>models.py\<close> declares the table \<open>transfer_statistics\<close> and has
  no function that fills it. The specification (section 4.3) says that the statistics are
  one row for each (year, month), recomputed from the transfers of the period. It does
  not say which period a transfer belongs to, nor which statuses count as pending, so
  both are parameters (\<open>period_of\<close>, \<open>pending\<close>); the other totals count the transfers
  of the period by the direction and the status their names give. Recomputing overwrites
  the totals of the period's row, or adds the row when the period has none; the \<open>id\<close> of
  a row that is added is the store's to give and is left open.
\<close>

definition count_where :: "('a \<Rightarrow> bool) \<Rightarrow> 'a list \<Rightarrow> int" where
  "count_where P xs = int (length (filter P xs))"

text \<open>Modelled from the spec: the five totals of a period, counted over the transfers that
  \<open>period_of\<close> puts in it.\<close>

definition compute_totals ::
  "(StudentTransfer \<Rightarrow> int \<times> int) \<Rightarrow> (TransferStatus \<Rightarrow> bool) \<Rightarrow> int \<Rightarrow> int \<Rightarrow>
     StudentTransfer list \<Rightarrow> int \<times> int \<times> int \<times> int \<times> int" where
  "compute_totals period_of pending y m transfers =
     (let ts = filter (\<lambda>t. period_of t = (y, m)) transfers
      in (count_where (\<lambda>t. tr_transfer_type t = INCOMING) ts,
          count_where (\<lambda>t. tr_transfer_type t = OUTGOING) ts,
          count_where (\<lambda>t. tr_status t = APPROVED) ts,
          count_where (\<lambda>t. tr_status t = REJECTED) ts,
          count_where (\<lambda>t. pending (tr_status t)) ts))"

text \<open>Modelled from the spec: recomputing a period writes its totals into the period's
  row, which is added when the period has none.\<close>

definition recompute_statistics ::
  "(StudentTransfer \<Rightarrow> int \<times> int) \<Rightarrow> (TransferStatus \<Rightarrow> bool) \<Rightarrow>
     datetime \<Rightarrow> int \<Rightarrow> int \<Rightarrow> database \<Rightarrow> database" where
  "recompute_statistics period_of pending now y m db =
     (case compute_totals period_of pending y m (student_transfers db) of
        (incoming, outgoing, approved, rejected, pending_total) \<Rightarrow>
          (let rows = transfer_statistics db;
               refresh = (\<lambda>r. r\<lparr>stat_total_incoming := incoming,
                                stat_total_outgoing := outgoing,
                                stat_total_approved := approved,
                                stat_total_rejected := rejected,
                                stat_total_pending := pending_total,
                                stat_updated_at := now\<rparr>)
           in if list_ex (\<lambda>r. stat_year r = y \<and> stat_month r = m) rows
              then db\<lparr>transfer_statistics :=
                        map (\<lambda>r. if stat_year r = y \<and> stat_month r = m then refresh r else r)
                          rows\<rparr>
              else db\<lparr>transfer_statistics :=
                        rows @ [refresh \<lparr>stat_id = None,
                                         stat_year = y, stat_month = m,
                                         stat_total_incoming = 0, stat_total_outgoing = 0,
                                         stat_total_approved = 0, stat_total_rejected = 0,
                                         stat_total_pending = 0,
                                         stat_created_at = now, stat_updated_at = now\<rparr>]\<rparr>))"

text \<open>The five totals of each row of a period.\<close>

definition period_totals :: "int \<Rightarrow> int \<Rightarrow> database \<Rightarrow> (int \<times> int \<times> int \<times> int \<times> int) list" where
  "period_totals y m db =
     map (\<lambda>r. (stat_total_incoming r, stat_total_outgoing r, stat_total_approved r,
                stat_total_rejected r, stat_total_pending r))
       (filter (\<lambda>r. stat_year r = y \<and> stat_month r = m) (transfer_statistics db))"

section \<open>Example values\<close>

definition alice_payload :: UserCreate_payload where
  "alice_payload =
     \<lparr>p_username = Some ''alice'', p_email = Some ''alice@example.org'',
      p_password = Some ''s3cretpw'', p_full_name = Some ''Alice'',
      p_role = Missing, p_phone = None\<rparr>"

definition alice :: User where
  "alice =
     \<lparr>u_id = None, u_username = ''alice'', u_email = ''alice@example.org'',
      u_password_hash = ''h'', u_full_name = ''Alice'', u_role = TEACHER,
      u_is_active = True, u_phone = None, u_created_at = 0, u_updated_at = 0,
      u_last_login = None\<rparr>"

definition melati :: School where
  "melati =
     \<lparr>sc_id = None, sc_npsn = ''20100001'', sc_name = ''SD Melati'', sc_address = ''Jl. Melati 1'',
      sc_district = ''Coblong'', sc_regency = ''Bandung'', sc_province = ''Jawa Barat'',
      sc_postal_code = None, sc_phone = None, sc_email = None,
      sc_headmaster_name = ''Ibu Sari'', sc_is_active = True, sc_created_at = 0\<rparr>"

definition mawar :: School where
  "mawar = melati\<lparr>sc_npsn := ''20100002'', sc_name := ''SD Mawar''\<rparr>"

definition budi :: Student where
  "budi =
     \<lparr>st_id = None, st_nisn = ''0012345678'', st_nis = None, st_full_name = ''Budi'',
      st_birth_place = ''Bandung'', st_birth_date = 0, st_gender = ''Laki-laki'',
      st_religion = ''Islam'', st_address = ''Jl. Melati 2'', st_parent_name = ''Pak Joko'',
      st_parent_phone = None, st_current_grade = ''3'', st_created_at = 0,
      st_updated_at = 0\<rparr>"

definition report_card :: TransferDocument where
  "report_card =
     \<lparr>doc_id = Some 1, doc_transfer_id = 1, doc_document_type = REPORT_CARD,
      doc_file_name = ''rapor.pdf'', doc_file_path = ''/files/rapor.pdf'', doc_file_size = 1024,
      doc_mime_type = ''application/pdf'', doc_is_verified = True,
      doc_verified_by_id = Some 1, doc_verified_at = Some 5,
      doc_verification_notes = None, doc_uploaded_at = 0\<rparr>"

text \<open>One user, two schools and one student, stored with their \<open>id\<close>.\<close>

definition example_db :: database where
  "example_db =
     \<lparr>users = [alice\<lparr>u_id := Some 1\<rparr>],
      schools = [melati\<lparr>sc_id := Some 1\<rparr>, mawar\<lparr>sc_id := Some 2\<rparr>],
      students = [budi\<lparr>st_id := Some 1\<rparr>],
      student_transfers = [], transfer_status_history = [], system_settings = [],
      transfer_statistics = []\<rparr>"

text \<open>A transfer of the student from the first school to the second, in status
  \<open>draft\<close>, and the database that holds it.\<close>

definition draft_transfer :: StudentTransfer where
  "draft_transfer =
     \<lparr>tr_id = Some 1, tr_transfer_number = ''TRF-0001'', tr_student_id = 1,
      tr_transfer_type = OUTGOING, tr_origin_school_id = 1, tr_destination_school_id = 2,
      tr_transfer_reason = ''pindah domisili'', tr_status = DRAFT, tr_grade_from = ''3'',
      tr_grade_to = ''3'', tr_semester = ''1'', tr_academic_year = ''2023/2024'',
      tr_transfer_date = 0, tr_created_by_id = 1, tr_approved_by_id = None,
      tr_approval_date = None, tr_approval_notes = None, tr_priority_level = ''normal'',
      tr_notes = None, tr_created_at = 0, tr_updated_at = 0\<rparr>"

definition draft_db :: database where
  "draft_db = example_db\<lparr>student_transfers := [draft_transfer]\<rparr>"


definition transfer_kwargs :: "string \<rightharpoonup> pyvalue" where
  "transfer_kwargs =
     map_of
       [(''transfer_number'', PyStr ''TRF-0001''), (''student_id'', PyInt 1),
        (''transfer_type'', PyTransferType OUTGOING), (''origin_school_id'', PyInt 1),
        (''destination_school_id'', PyInt 2), (''transfer_reason'', PyStr ''pindah domisili''),
        (''grade_from'', PyStr ''3''), (''grade_to'', PyStr ''3''), (''semester'', PyStr ''1''),
        (''academic_year'', PyStr ''2023/2024''), (''created_by_id'', PyInt 1)]"

text \<open>The values of a row of \<open>student_transfers\<close> for a second transfer of the student, in
  status \<open>draft\<close>, and of a first row of \<open>transfer_status_history\<close> for the stored transfer,
  with \<open>new_status = approved\<close>.\<close>

definition draft_values :: StudentTransfer_values where
  "draft_values =
     \<lparr>v_id = None, v_transfer_number = Some ''TRF-0002'', v_student_id = Some 1,
      v_transfer_type = Some OUTGOING, v_origin_school_id = Some 1,
      v_destination_school_id = Some 2, v_transfer_reason = Some ''pindah domisili'',
      v_status = Some DRAFT, v_grade_from = Some ''3'', v_grade_to = Some ''3'',
      v_semester = Some ''1'', v_academic_year = Some ''2023/2024'',
      v_transfer_date = Some 0, v_created_by_id = Some 1, v_approved_by_id = None,
      v_approval_date = None, v_approval_notes = None, v_priority_level = Some ''normal'',
      v_notes = None, v_created_at = Some 0, v_updated_at = Some 0\<rparr>"

definition entry_values :: TransferStatusHistory_values where
  "entry_values =
     \<lparr>hv_id = None, hv_transfer_id = Some 1, hv_previous_status = None,
      hv_new_status = Some APPROVED, hv_changed_by_id = Some 1, hv_change_reason = None,
      hv_notes = None, hv_created_at = Some 0\<rparr>"

section \<open>Properties\<close>

lemma str_errors_Nil:
  "str_errors f lo hi v = [] \<longleftrightarrow> (\<exists>s. v = Some s \<and> lo \<le> length s \<and> length s \<le> hi)"
  by (cases v) (auto simp: str_errors_def)

lemma str_errors_refused:
  "str_errors f lo hi v \<noteq> [] \<Longrightarrow> str_errors f lo hi v = [f]"
  by (cases v) (auto simp: str_errors_def split: if_splits)

lemma email_regex_alice: "email_regex ''alice@example.org''"
  by (simp add: email_regex_def local_char_def label_char_def tail_char_def alnum_def)

lemma User_errors_alice: "User_errors alice = []"
  by (simp add: User_errors_def alice_def str_errors_def opt_str_errors_def email_regex_alice)

text \<open>
  C9. A \<open>UserCreate\<close> request is accepted only with a password of 8 to 100 characters,
  and a request whose password is shorter or longer is refused with a
  \<open>ValidationError\<close> that lists \<open>password\<close>. The table \<open>users\<close> holds a
  \<open>password_hash\<close> with no minimum: any hash of at most 255 characters, the empty one
  included, passes the constraints of \<open>User\<close> where the other fields do.
\<close>

theorem UserCreate_password_length:
  "(validate_UserCreate p = Inr m \<longrightarrow>
      p_password p = Some (uc_password m) \<and>
      8 \<le> length (uc_password m) \<and> length (uc_password m) \<le> 100) \<and>
   (p_password p = Some pw \<and> (length pw < 8 \<or> 100 < length pw) \<longrightarrow>
      (\<exists>errs. validate_UserCreate p = Inl (ValidationError errs) \<and> ''password'' \<in> set errs)) \<and>
   (User_errors u = [] \<and> length h \<le> 255 \<longrightarrow> User_errors (u\<lparr>u_password_hash := h\<rparr>) = [])"
proof (intro conjI impI)
  assume ok: "validate_UserCreate p = Inr m"
  then have errs: "UserCreate_errors p = []" and m: "uc_password m = the (p_password p)"
    by (auto simp: validate_UserCreate_def split: if_splits)
  from errs have "str_errors ''password'' 8 100 (p_password p) = []"
    by (simp add: UserCreate_errors_def)
  then obtain s where "p_password p = Some s" "8 \<le> length s" "length s \<le> 100"
    by (auto simp: str_errors_Nil)
  with m show "p_password p = Some (uc_password m)"
    and "8 \<le> length (uc_password m)" and "length (uc_password m) \<le> 100"
    by simp_all
next
  assume "p_password p = Some pw \<and> (length pw < 8 \<or> 100 < length pw)"
  then have "str_errors ''password'' 8 100 (p_password p) = [''password'']"
    by (auto simp: str_errors_def)
  then have "''password'' \<in> set (UserCreate_errors p)"
    by (simp add: UserCreate_errors_def)
  then show "\<exists>errs. validate_UserCreate p = Inl (ValidationError errs) \<and> ''password'' \<in> set errs"
    by (auto simp: validate_UserCreate_def)
next
  assume "User_errors u = [] \<and> length h \<le> 255"
  then show "User_errors (u\<lparr>u_password_hash := h\<rparr>) = []"
    by (simp add: User_errors_def str_errors_def)
qed

theorem UserCreate_password_length_witness:
  "validate_UserCreate alice_payload =
     Inr \<lparr>uc_username = ''alice'', uc_email = ''alice@example.org'', uc_password = ''s3cretpw'',
          uc_full_name = ''Alice'', uc_role = TEACHER, uc_phone = None\<rparr> \<and>
   length ''s3cretpw'' = 8 \<and>
   validate_UserCreate (alice_payload\<lparr>p_password := Some ''short''\<rparr>) =
     Inl (ValidationError [''password'']) \<and>
   User_errors alice = [] \<and>
   User_errors (alice\<lparr>u_password_hash := ''''\<rparr>) = []"
proof -
  let ?m = "\<lparr>uc_username = ''alice'', uc_email = ''alice@example.org'', uc_password = ''s3cretpw'',
          uc_full_name = ''Alice'', uc_role = TEACHER, uc_phone = None\<rparr>"
  have ok: "validate_UserCreate alice_payload = Inr ?m"
    by (simp add: validate_UserCreate_def UserCreate_errors_def alice_payload_def
        str_errors_def opt_str_errors_def role_of_payload_def)
  have bad: "validate_UserCreate (alice_payload\<lparr>p_password := Some ''short''\<rparr>) =
     Inl (ValidationError [''password''])"
    by (simp add: validate_UserCreate_def UserCreate_errors_def alice_payload_def
        str_errors_def opt_str_errors_def role_of_payload_def)
  from UserCreate_password_length [where p = alice_payload and m = ?m and u = alice and h = "''''"]
    ok bad User_errors_alice
  show ?thesis by simp
qed

subsection \<open>No table class can be constructed\<close>

lemma unresolved_relationships_eq:
  "unresolved_relationships =
     [(''users'', ''created_transfers'', ''student_transfers''),
      (''users'', ''approved_transfers'', ''student_transfers''),
      (''schools'', ''origin_transfers'', ''student_transfers''),
      (''schools'', ''destination_transfers'', ''student_transfers''),
      (''student_transfers'', ''origin_school'', ''schools''),
      (''student_transfers'', ''destination_school'', ''schools''),
      (''student_transfers'', ''created_by_user'', ''users''),
      (''student_transfers'', ''approved_by_user'', ''users'')]"
  by (simp add: unresolved_relationships_def relationships_def foreign_key_paths_def
      foreign_keys_def)

lemma StudentTransfer_init_fails: "StudentTransfer_init now kwargs = Inl InvalidRequestError"
  by (simp add: StudentTransfer_init_def unresolved_relationships_eq)

text \<open>
  C4 at a failing input. \<open>status\<close> is declared with the default \<open>draft\<close>, so a new
  \<open>StudentTransfer\<close> is meant to start as a draft. But \<open>student_transfers\<close> has two
  foreign keys to \<open>users\<close> and two to \<open>schools\<close>, and the relationships between these
  classes name no foreign key: eight relationships are unresolved, the mappers cannot be
  configured, and constructing a \<open>StudentTransfer\<close> fails with \<open>InvalidRequestError\<close>
  whatever its arguments are. No transfer is created, in status \<open>draft\<close> or any other.
\<close>

theorem StudentTransfer_cannot_be_constructed:
  "unresolved_relationships =
     [(''users'', ''created_transfers'', ''student_transfers''),
      (''users'', ''approved_transfers'', ''student_transfers''),
      (''schools'', ''origin_transfers'', ''student_transfers''),
      (''schools'', ''destination_transfers'', ''student_transfers''),
      (''student_transfers'', ''origin_school'', ''schools''),
      (''student_transfers'', ''destination_school'', ''schools''),
      (''student_transfers'', ''created_by_user'', ''users''),
      (''student_transfers'', ''approved_by_user'', ''users'')] \<and>
   StudentTransfer_init now kwargs = Inl InvalidRequestError \<and>
   StudentTransfer_init (\<lambda>k. 0) transfer_kwargs = Inl InvalidRequestError"
  by (simp add: StudentTransfer_init_fails unresolved_relationships_eq)

subsection \<open>Origin and destination school\<close>




subsection \<open>The approval fields\<close>

text \<open>
  C2, as the specification states it, fails on the table that \<open>StudentTransfer\<close>
  declares: a row in status \<open>draft\<close> that carries an \<open>approved_by_id\<close> and an
  \<open>approval_date\<close> violates no constraint that the table declares, although it breaks
  the specification's rule for the approval fields.
\<close>

theorem draft_row_with_approval_fields_violates_nothing:
  "v_status (draft_values\<lparr>v_approved_by_id := Some 1, v_approval_date := Some 0\<rparr>) = Some DRAFT \<and>
   StudentTransfer_violations example_db
     (draft_values\<lparr>v_approved_by_id := Some 1, v_approval_date := Some 0\<rparr>) = [] \<and>
   \<not> spec_approval_fields_ok DRAFT (Some 1) (Some 0)"
  by (simp add: StudentTransfer_violations_def draft_values_def example_db_def alice_def
      melati_def mawar_def budi_def null_violation_def length_violation_def key_violation_def
      unique_violation_def reference_violation_def spec_approval_fields_ok_def)

text \<open>
  C2, amended. \<open>approved_by_id\<close> and \<open>approval_date\<close> are nullable columns of
  \<open>student_transfers\<close>, and the table declares no constraint that ties them to the
  status or to each other: the declared constraints that a row violates are the same
  whatever its status and its \<open>approval_date\<close> are, and the same with an
  \<open>approved_by_id\<close> that is the \<open>id\<close> of a stored user as with none.
\<close>

theorem approval_columns_not_tied_to_status:
  "StudentTransfer_violations db (v\<lparr>v_status := Some s, v_approval_date := d\<rparr>) =
     StudentTransfer_violations db (v\<lparr>v_status := Some s', v_approval_date := d'\<rparr>) \<and>
   (Some i \<in> set (map u_id (users db)) \<longrightarrow>
      StudentTransfer_violations db (v\<lparr>v_approved_by_id := Some i\<rparr>) =
        StudentTransfer_violations db (v\<lparr>v_approved_by_id := None\<rparr>))"
  by (simp add: StudentTransfer_violations_def null_violation_def reference_violation_def)

theorem approval_columns_not_tied_to_status_witness:
  "Some (1::int) \<in> set (map u_id (users example_db)) \<and>
   StudentTransfer_violations example_db draft_values = [] \<and>
   StudentTransfer_violations example_db
     (draft_values\<lparr>v_status := Some SUBMITTED, v_approval_date := Some 7,
        v_approved_by_id := Some 1\<rparr>) = []"
proof -
  have u: "Some (1::int) \<in> set (map u_id (users example_db))"
    by (simp add: example_db_def)
  have z: "StudentTransfer_violations example_db draft_values = []"
    by (simp add: StudentTransfer_violations_def draft_values_def example_db_def alice_def
      melati_def mawar_def budi_def null_violation_def length_violation_def key_violation_def
      unique_violation_def reference_violation_def)
  have e: "draft_values\<lparr>v_status := Some DRAFT, v_approval_date := None\<rparr> = draft_values"
    by (simp add: draft_values_def)
  let ?v = "draft_values\<lparr>v_status := Some SUBMITTED, v_approval_date := Some 7\<rparr>"
  have n: "?v\<lparr>v_approved_by_id := None\<rparr> = ?v"
    by (simp add: draft_values_def)
  have a: "StudentTransfer_violations example_db ?v =
      StudentTransfer_violations example_db draft_values"
    using approval_columns_not_tied_to_status
      [where db = example_db and v = draft_values and s = SUBMITTED and d = "Some 7"
         and s' = DRAFT and d' = None and i = 1] e
    by simp
  have b: "StudentTransfer_violations example_db (?v\<lparr>v_approved_by_id := Some 1\<rparr>) =
      StudentTransfer_violations example_db ?v"
    using approval_columns_not_tied_to_status
      [where db = example_db and v = ?v and s = SUBMITTED and d = "Some 7"
         and s' = DRAFT and d' = None and i = 1] u n
    by simp
  from a b z u show ?thesis by simp
qed

subsection \<open>The status history\<close>

text \<open>
  C3, as the specification states it, fails on the table that
  \<open>TransferStatusHistory\<close> declares: for the stored transfer, which is in status
  \<open>draft\<close> and has no history, a first entry with \<open>new_status = approved\<close> violates no
  constraint that the table declares, although \<open>[approved]\<close> is no walk of the
  specification's graph from \<open>draft\<close>.
\<close>

theorem history_entry_skipping_states_violates_nothing:
  "map tr_status (student_transfers draft_db) = [DRAFT] \<and>
   status_history 1 draft_db = [] \<and>
   hv_transfer_id entry_values = Some 1 \<and>
   hv_new_status entry_values = Some APPROVED \<and>
   TransferStatusHistory_violations draft_db entry_values = [] \<and>
   \<not> spec_history_ok [APPROVED]"
  by (simp add: TransferStatusHistory_violations_def entry_values_def draft_db_def
      example_db_def draft_transfer_def alice_def status_history_def null_violation_def
      length_violation_def key_violation_def reference_violation_def spec_history_ok_def)

text \<open>
  C3, amended. The table \<open>transfer_status_history\<close> constrains an entry by itself and
  does not hold the transition graph: the declared constraints that an entry violates
  are the same whatever its \<open>new_status\<close> and its \<open>previous_status\<close> are, and they do
  not change when the statuses of the stored transfers and of the stored entries do.
\<close>

theorem history_constraints_ignore_statuses:
  "TransferStatusHistory_violations db (v\<lparr>hv_new_status := Some s, hv_previous_status := p\<rparr>) =
     TransferStatusHistory_violations db (v\<lparr>hv_new_status := Some s', hv_previous_status := p'\<rparr>) \<and>
   TransferStatusHistory_violations
     (db\<lparr>student_transfers := map (\<lambda>t. t\<lparr>tr_status := f t\<rparr>) (student_transfers db),
         transfer_status_history :=
           map (\<lambda>h. h\<lparr>h_new_status := g h, h_previous_status := g' h\<rparr>)
             (transfer_status_history db)\<rparr>) v =
     TransferStatusHistory_violations db v"
  by (simp add: TransferStatusHistory_violations_def null_violation_def o_def)

theorem history_constraints_ignore_statuses_witness:
  "TransferStatusHistory_violations draft_db entry_values = [] \<and>
   TransferStatusHistory_violations draft_db
     (entry_values\<lparr>hv_new_status := Some COMPLETED, hv_previous_status := Some REJECTED\<rparr>) = [] \<and>
   TransferStatusHistory_violations
     (draft_db\<lparr>student_transfers := [draft_transfer\<lparr>tr_status := COMPLETED\<rparr>]\<rparr>)
     entry_values = []"
proof -
  have z: "TransferStatusHistory_violations draft_db entry_values = []"
    by (simp add: TransferStatusHistory_violations_def entry_values_def draft_db_def
      example_db_def draft_transfer_def alice_def null_violation_def length_violation_def
      key_violation_def reference_violation_def)
  have e: "entry_values\<lparr>hv_new_status := Some APPROVED, hv_previous_status := None\<rparr> =
      entry_values"
    by (simp add: entry_values_def)
  have d: "draft_db\<lparr>student_transfers :=
        map (\<lambda>t. t\<lparr>tr_status := COMPLETED\<rparr>) (student_transfers draft_db),
      transfer_status_history :=
        map (\<lambda>h. h\<lparr>h_new_status := APPROVED, h_previous_status := None\<rparr>)
          (transfer_status_history draft_db)\<rparr> =
      draft_db\<lparr>student_transfers := [draft_transfer\<lparr>tr_status := COMPLETED\<rparr>]\<rparr>"
    by (simp add: draft_db_def example_db_def)
  from history_constraints_ignore_statuses
      [where db = draft_db and v = entry_values and s = COMPLETED and p = "Some REJECTED"
         and s' = APPROVED and p' = None and f = "\<lambda>t. COMPLETED" and g = "\<lambda>h. APPROVED"
         and g' = "\<lambda>h. None"] z e d
  show ?thesis by simp
qed

subsection \<open>The columns of a history entry\<close>

text \<open>
  C10. In the table that \<open>TransferStatusHistory\<close> declares, \<open>new_status\<close> and
  \<open>changed_by_id\<close> are NOT NULL: an entry that violates no declared constraint has a
  \<open>TransferStatus\<close> as its \<open>new_status\<close> and the \<open>id\<close> of a stored user as its
  \<open>changed_by_id\<close>, and an entry without one of them violates the NOT NULL of that
  column. \<open>previous_status\<close> is nullable: no entry violates a NOT NULL of it, and the
  declared constraints that an entry violates are the same with any \<open>previous_status\<close>
  and with none.
\<close>

theorem history_required_and_optional_columns:
  "(TransferStatusHistory_violations db v = [] \<longrightarrow>
      hv_new_status v \<noteq> None \<and> hv_changed_by_id v \<noteq> None \<and>
      hv_changed_by_id v \<in> set (map u_id (users db))) \<and>
   (NotNull ''new_status'' \<in> set (TransferStatusHistory_violations db v) \<longleftrightarrow>
      hv_new_status v = None) \<and>
   (NotNull ''changed_by_id'' \<in> set (TransferStatusHistory_violations db v) \<longleftrightarrow>
      hv_changed_by_id v = None) \<and>
   NotNull ''previous_status'' \<notin> set (TransferStatusHistory_violations db v) \<and>
   TransferStatusHistory_violations db (v\<lparr>hv_previous_status := p\<rparr>) =
     TransferStatusHistory_violations db v"
  by (auto simp: TransferStatusHistory_violations_def null_violation_def length_violation_def
      key_violation_def reference_violation_def split: option.splits if_splits)

theorem history_required_and_optional_columns_witness:
  "hv_previous_status entry_values = None \<and>
   hv_new_status entry_values = Some APPROVED \<and>
   hv_changed_by_id entry_values = Some 1 \<and>
   TransferStatusHistory_violations draft_db entry_values = [] \<and>
   TransferStatusHistory_violations draft_db (entry_values\<lparr>hv_previous_status := Some DRAFT\<rparr>) = [] \<and>
   TransferStatusHistory_violations draft_db (entry_values\<lparr>hv_new_status := None\<rparr>) =
     [NotNull ''new_status'']"
proof -
  have z: "TransferStatusHistory_violations draft_db entry_values = []"
    and n: "TransferStatusHistory_violations draft_db (entry_values\<lparr>hv_new_status := None\<rparr>) =
      [NotNull ''new_status'']"
    by (simp_all add: TransferStatusHistory_violations_def entry_values_def draft_db_def
      example_db_def draft_transfer_def alice_def null_violation_def length_violation_def
      key_violation_def reference_violation_def)
  have e: "hv_previous_status entry_values = None" "hv_new_status entry_values = Some APPROVED"
    "hv_changed_by_id entry_values = Some 1"
    by (simp_all add: entry_values_def)
  from history_required_and_optional_columns
      [where db = draft_db and v = entry_values and p = "Some DRAFT"] z n e
  show ?thesis by simp
qed

subsection \<open>The email of a user\<close>

text \<open>
  C6 at a failing input. The pattern for an email address is declared on \<open>User.email\<close>
  only; the request shape \<open>UserCreate\<close> declares \<open>max_length=255\<close> for its \<open>email\<close> and
  no pattern. The request with the email \<open>not-an-email\<close> is therefore accepted by
  \<open>UserCreate\<close>, although the string does not match the pattern and the constraints of
  \<open>User\<close> refuse it.
\<close>

theorem UserCreate_accepts_unmatched_email:
  "validate_UserCreate (alice_payload\<lparr>p_email := Some ''not-an-email''\<rparr>) =
     Inr \<lparr>uc_username = ''alice'', uc_email = ''not-an-email'', uc_password = ''s3cretpw'',
          uc_full_name = ''Alice'', uc_role = TEACHER, uc_phone = None\<rparr> \<and>
   \<not> email_regex ''not-an-email'' \<and>
   User_errors (alice\<lparr>u_email := ''not-an-email''\<rparr>) = [''email'']"
  by (simp add: validate_UserCreate_def UserCreate_errors_def alice_payload_def
      str_errors_def opt_str_errors_def role_of_payload_def User_errors_def alice_def
      email_regex_def)

subsection \<open>Verifying a document again\<close>

text \<open>
  C7. Verifying a document that is already verified leaves \<open>is_verified\<close> true and
  changes \<open>verified_by_id\<close>, \<open>verified_at\<close> and \<open>verification_notes\<close> only: the result
  is the document with these three fields set. Every other field of a document is the
  same after any verification, and verifying twice with the same verifier, time and notes
  gives what verifying once gives.
\<close>

theorem reverification_changes_verifier_fields_only:
  "(doc_is_verified d \<longrightarrow>
      doc_is_verified (verify_document verifier now remark d) \<and>
      verify_document verifier now remark d =
        d\<lparr>doc_verified_by_id := Some verifier, doc_verified_at := Some now,
          doc_verification_notes := remark\<rparr>) \<and>
   doc_id (verify_document verifier now remark d) = doc_id d \<and>
   doc_transfer_id (verify_document verifier now remark d) = doc_transfer_id d \<and>
   doc_document_type (verify_document verifier now remark d) = doc_document_type d \<and>
   doc_file_name (verify_document verifier now remark d) = doc_file_name d \<and>
   doc_file_path (verify_document verifier now remark d) = doc_file_path d \<and>
   doc_file_size (verify_document verifier now remark d) = doc_file_size d \<and>
   doc_mime_type (verify_document verifier now remark d) = doc_mime_type d \<and>
   doc_uploaded_at (verify_document verifier now remark d) = doc_uploaded_at d \<and>
   verify_document verifier now remark (verify_document verifier now remark d) =
     verify_document verifier now remark d"
  by (simp add: verify_document_def)

theorem reverification_changes_verifier_fields_only_witness:
  "doc_is_verified report_card \<and>
   verify_document 2 9 (Some ''checked again'') report_card =
     report_card\<lparr>doc_verified_by_id := Some 2, doc_verified_at := Some 9,
       doc_verification_notes := Some ''checked again''\<rparr> \<and>
   doc_is_verified (verify_document 2 9 (Some ''checked again'') report_card)"
proof -
  have v: "doc_is_verified report_card"
    by (simp add: report_card_def)
  from reverification_changes_verifier_fields_only
    [where d = report_card and verifier = 2 and now = 9 and remark = "Some ''checked again''"] v
  show ?thesis by simp
qed

subsection \<open>Recomputing the statistics of a period\<close>

lemma recompute_keeps_transfers:
  "student_transfers (recompute_statistics period_of pending now y m db) = student_transfers db"
  by (simp add: recompute_statistics_def Let_def split: prod.splits)

lemma filter_refresh:
  assumes "\<And>r. P (f r) = P r"
  shows "filter P (map (\<lambda>r. if P r then f r else r) rows) = map f (filter P rows)"
  using assms by (induction rows) auto

lemma no_row_filter: "\<not> list_ex P rows \<Longrightarrow> filter P rows = []"
  by (induction rows) auto

lemma period_totals_recompute:
  "period_totals y m (recompute_statistics period_of pending now y m db) =
     replicate
       (if list_ex (\<lambda>r. stat_year r = y \<and> stat_month r = m) (transfer_statistics db)
        then length (filter (\<lambda>r. stat_year r = y \<and> stat_month r = m) (transfer_statistics db))
        else 1)
       (compute_totals period_of pending y m (student_transfers db))"
proof -
  obtain a b c d e where t:
    "compute_totals period_of pending y m (student_transfers db) = (a, b, c, d, e)"
    by (metis prod_cases5)
  let ?P = "\<lambda>r. stat_year r = y \<and> stat_month r = m"
  let ?f = "\<lambda>r. r\<lparr>stat_total_incoming := a, stat_total_outgoing := b,
      stat_total_approved := c, stat_total_rejected := d, stat_total_pending := e,
      stat_updated_at := now\<rparr>"
  show ?thesis
  proof (cases "list_ex ?P (transfer_statistics db)")
    case True
    have "filter ?P (map (\<lambda>r. if ?P r then ?f r else r) (transfer_statistics db)) =
        map ?f (filter ?P (transfer_statistics db))"
      by (rule filter_refresh) simp
    with True t show ?thesis
      by (simp add: period_totals_def recompute_statistics_def Let_def o_def map_replicate_const)
  next
    case False
    then have "filter ?P (transfer_statistics db) = []"
      by (rule no_row_filter)
    with False t show ?thesis
      by (simp add: period_totals_def recompute_statistics_def Let_def)
  qed
qed

lemma period_rows_after_recompute:
  "list_ex (\<lambda>r. stat_year r = y \<and> stat_month r = m)
     (transfer_statistics (recompute_statistics period_of pending now y m db))"
proof -
  have "period_totals y m (recompute_statistics period_of pending now y m db) \<noteq> []"
    unfolding period_totals_recompute
    by (auto simp: list_ex_iff filter_empty_conv)
  then show ?thesis
    by (auto simp: period_totals_def list_ex_iff filter_empty_conv)
qed

text \<open>
  C8. Recomputing the statistics of a (year, month) a second time, over the same
  transfers, leaves the five totals of the period's rows as the first recomputation set
  them, whatever the two times of recomputation: each row of the period holds the totals
  computed from the transfers, and recomputing does not change the transfers.
\<close>

theorem recompute_statistics_idempotent:
  "period_totals y m
     (recompute_statistics period_of pending now2 y m
        (recompute_statistics period_of pending now1 y m db)) =
     period_totals y m (recompute_statistics period_of pending now1 y m db) \<and>
   set (period_totals y m (recompute_statistics period_of pending now1 y m db)) =
     {compute_totals period_of pending y m (student_transfers db)} \<and>
   student_transfers (recompute_statistics period_of pending now1 y m db) = student_transfers db"
proof (intro conjI)
  let ?db1 = "recompute_statistics period_of pending now1 y m db"
  let ?P = "\<lambda>r. stat_year r = y \<and> stat_month r = m"
  have len: "length (filter ?P (transfer_statistics ?db1)) = length (period_totals y m ?db1)"
    by (simp add: period_totals_def)
  have "period_totals y m (recompute_statistics period_of pending now2 y m ?db1) =
      replicate (length (period_totals y m ?db1))
        (compute_totals period_of pending y m (student_transfers db))"
    by (simp add: period_totals_recompute [of y m period_of pending now2 ?db1]
        period_rows_after_recompute recompute_keeps_transfers len)
  also have "\<dots> = period_totals y m ?db1"
    by (simp add: period_totals_recompute [of y m period_of pending now1 db])
  finally show "period_totals y m (recompute_statistics period_of pending now2 y m ?db1) =
      period_totals y m ?db1" .
  show "set (period_totals y m ?db1) =
      {compute_totals period_of pending y m (student_transfers db)}"
    by (auto simp: period_totals_recompute list_ex_iff filter_empty_conv)
  show "student_transfers ?db1 = student_transfers db"
    by (rule recompute_keeps_transfers)
qed

theorem recompute_statistics_idempotent_witness:
  "period_totals 2024 3
     (recompute_statistics (\<lambda>t. (2024, 3)) (\<lambda>s. s = PENDING_APPROVAL) 5 2024 3 draft_db) =
     [(0, 1, 0, 0, 0)] \<and>
   period_totals 2024 3
     (recompute_statistics (\<lambda>t. (2024, 3)) (\<lambda>s. s = PENDING_APPROVAL) 6 2024 3
        (recompute_statistics (\<lambda>t. (2024, 3)) (\<lambda>s. s = PENDING_APPROVAL) 5 2024 3 draft_db)) =
     [(0, 1, 0, 0, 0)]"
proof -
  have one: "period_totals 2024 3
     (recompute_statistics (\<lambda>t. (2024, 3)) (\<lambda>s. s = PENDING_APPROVAL) 5 2024 3 draft_db) =
     [(0, 1, 0, 0, 0)]"
    by (simp add: period_totals_def recompute_statistics_def compute_totals_def count_where_def
        draft_db_def example_db_def draft_transfer_def)
  from recompute_statistics_idempotent
    [where y = 2024 and m = 3 and period_of = "\<lambda>t. (2024, 3)"
       and pending = "\<lambda>s. s = PENDING_APPROVAL" and ?now1.0 = 5 and ?now2.0 = 6
       and db = draft_db] one
  show ?thesis by simp
qed

end
